theory Spec2Isabelle
  imports
    Main
    "HOL-Library.Word"
    "HOL-Library.Multiset"
    "HOL-Library.Char_ord"
    "HOL-Library.List_Lexorder"
begin

unbundle bit_operations_syntax

section \<open>The Python operations the module uses\<close>

text \<open>
  The module is Python 2 (\<^verbatim>\<open>hashlib.sha256\<close> is given a \<^verbatim>\<open>str\<close>, \<^verbatim>\<open>zip\<close> returns a list):
  a \<^verbatim>\<open>str\<close> is a byte string, here \<^typ>\<open>string\<close>, compared byte by byte, and an \<^verbatim>\<open>int\<close> is
  unbounded, here \<^typ>\<open>int\<close>. An exception is a value of \<open>py_error\<close>; a function that may
  raise returns \<open>py_error + 'a\<close>. \<open>ValueError\<close> carries its message.
\<close>

datatype py_error = ValueError string | KeyError | IndexError | AttributeError | TypeError

text \<open>A value that is an \<^verbatim>\<open>int\<close> or a \<^verbatim>\<open>str\<close>: the id of an attribute is either.\<close>

datatype pyval = PyInt int | PyStr string

text \<open>\<^verbatim>\<open>s + v\<close> for a \<^verbatim>\<open>str\<close> \<open>s\<close>: concatenation with a \<^verbatim>\<open>str\<close>, \<^verbatim>\<open>TypeError\<close> with an \<^verbatim>\<open>int\<close>.\<close>

fun py_str_add :: "string \<Rightarrow> pyval \<Rightarrow> py_error + string" where
  "py_str_add s (PyStr t) = Inr (s @ t)"
| "py_str_add s (PyInt n) = Inl TypeError"

text \<open>\<^verbatim>\<open>s.strip(chars)\<close> removes the characters of \<open>chars\<close> from both ends of \<open>s\<close>.\<close>

definition py_lstrip :: "string \<Rightarrow> string \<Rightarrow> string" where
  "py_lstrip s chars = dropWhile (\<lambda>c. c \<in> set chars) s"

definition py_rstrip :: "string \<Rightarrow> string \<Rightarrow> string" where
  "py_rstrip s chars = rev (dropWhile (\<lambda>c. c \<in> set chars) (rev s))"

definition py_strip :: "string \<Rightarrow> string \<Rightarrow> string" where
  "py_strip s chars = py_rstrip (py_lstrip s chars) chars"

text \<open>\<^verbatim>\<open>s.split(sep)\<close> for a separator of one character: never the empty list.\<close>

fun py_split :: "string \<Rightarrow> char \<Rightarrow> string list" where
  "py_split [] sep = [[]]"
| "py_split (c # cs) sep =
     (if c = sep then [] # py_split cs sep
      else (case py_split cs sep of p # ps \<Rightarrow> (c # p) # ps | [] \<Rightarrow> [[c]]))"

text \<open>\<^verbatim>\<open>xs[i]\<close> for \<open>i \<ge> 0\<close>, and \<^verbatim>\<open>d[k]\<close> for a dict.\<close>

definition py_index :: "'a list \<Rightarrow> nat \<Rightarrow> py_error + 'a" where
  "py_index xs i = (if i < length xs then Inr (xs ! i) else Inl IndexError)"

definition py_getitem :: "('k \<rightharpoonup> 'v) \<Rightarrow> 'k \<Rightarrow> py_error + 'v" where
  "py_getitem d k = (case d k of None \<Rightarrow> Inl KeyError | Some v \<Rightarrow> Inr v)"

text \<open>
  \<^verbatim>\<open>int(s)\<close> for a \<^verbatim>\<open>str\<close>, base 10: white space around the literal is dropped, one sign is
  allowed, and at least one digit must follow, with nothing else. The message of the
  \<^verbatim>\<open>ValueError\<close> is Python's text before the quoted literal, followed by the literal.
\<close>

definition py_whitespace :: string where
  "py_whitespace = [CHR '' '', CHR 0x09, CHR 0x0A, CHR 0x0B, CHR 0x0C, CHR 0x0D]"

definition is_digit :: "char \<Rightarrow> bool" where
  "is_digit c = (c \<in> set ''0123456789'')"

definition digit_val :: "char \<Rightarrow> int" where
  "digit_val c = of_char c - 48"

definition py_int :: "string \<Rightarrow> py_error + int" where
  "py_int s =
     (let t = py_strip s py_whitespace;
          neg = (case t of c # r \<Rightarrow> c = CHR ''-'' | [] \<Rightarrow> False);
          ds = (case t of c # r \<Rightarrow> if c = CHR ''-'' \<or> c = CHR ''+'' then r else t | [] \<Rightarrow> [])
      in if ds \<noteq> [] \<and> list_all is_digit ds
         then Inr ((if neg then - 1 else 1) * foldl (\<lambda>a c. 10 * a + digit_val c) 0 ds)
         else Inl (ValueError (''invalid literal for int() with base 10: '' @ s)))"

text \<open>\<^verbatim>\<open>str(n)\<close> for an \<^verbatim>\<open>int\<close>, which is also how \<^verbatim>\<open>str.format\<close> writes one.\<close>

fun py_digits :: "nat \<Rightarrow> string" where
  "py_digits n =
     (if n < 10 then [''0123456789'' ! n]
      else py_digits (n div 10) @ [''0123456789'' ! (n mod 10)])"

declare py_digits.simps [simp del]

definition py_str :: "int \<Rightarrow> string" where
  "py_str n = (if n < 0 then CHR ''-'' # py_digits (nat (- n)) else py_digits (nat n))"





section \<open>hashlib.sha256\<close>

text \<open>
  \<^verbatim>\<open>hashlib.sha256(s).hexdigest()\<close> on a byte string, after FIPS 180-4: the message is
  padded to a multiple of 64 bytes, read as big-endian 32-bit words, and compressed block by
  block; the digest is written as 64 lower-case hexadecimal digits.
\<close>

type_synonym w32 = "32 word"

definition rotr :: "nat \<Rightarrow> w32 \<Rightarrow> w32" where
  "rotr n x = (drop_bit n x) OR (push_bit (32 - n) x)"

definition Ch :: "w32 \<Rightarrow> w32 \<Rightarrow> w32 \<Rightarrow> w32" where
  "Ch x y z = (x AND y) XOR (NOT x AND z)"

definition Maj :: "w32 \<Rightarrow> w32 \<Rightarrow> w32 \<Rightarrow> w32" where
  "Maj x y z = (x AND y) XOR (x AND z) XOR (y AND z)"

definition Sigma0 :: "w32 \<Rightarrow> w32" where
  "Sigma0 x = rotr 2 x XOR rotr 13 x XOR rotr 22 x"

definition Sigma1 :: "w32 \<Rightarrow> w32" where
  "Sigma1 x = rotr 6 x XOR rotr 11 x XOR rotr 25 x"

definition sigma0 :: "w32 \<Rightarrow> w32" where
  "sigma0 x = rotr 7 x XOR rotr 18 x XOR drop_bit 3 x"

definition sigma1 :: "w32 \<Rightarrow> w32" where
  "sigma1 x = rotr 17 x XOR rotr 19 x XOR drop_bit 10 x"

text \<open>
  The round constants (the first 32 bits of the fractional parts of the cube roots of the
  first 64 primes) and the initial hash value (the same of the square roots of the first 8
  primes), in decimal: the first round constant is \<open>0x428a2f98\<close>, the first word of the
  initial value \<open>0x6a09e667\<close>.
\<close>

definition sha256_K :: "w32 list" where
  "sha256_K =
   [1116352408, 1899447441, 3049323471, 3921009573, 961987163, 1508970993,
    2453635748, 2870763221, 3624381080, 310598401, 607225278, 1426881987,
    1925078388, 2162078206, 2614888103, 3248222580, 3835390401, 4022224774,
    264347078, 604807628, 770255983, 1249150122, 1555081692, 1996064986,
    2554220882, 2821834349, 2952996808, 3210313671, 3336571891, 3584528711,
    113926993, 338241895, 666307205, 773529912, 1294757372, 1396182291,
    1695183700, 1986661051, 2177026350, 2456956037, 2730485921, 2820302411,
    3259730800, 3345764771, 3516065817, 3600352804, 4094571909, 275423344,
    430227734, 506948616, 659060556, 883997877, 958139571, 1322822218,
    1537002063, 1747873779, 1955562222, 2024104815, 2227730452, 2361852424,
    2428436474, 2756734187, 3204031479, 3329325298]"

definition sha256_H0 :: "w32 list" where
  "sha256_H0 =
   [1779033703, 3144134277, 1013904242, 2773480762,
    1359893119, 2600822924, 528734635, 1541459225]"

definition be64 :: "64 word \<Rightarrow> 8 word list" where
  "be64 n = map (\<lambda>i. ucast (drop_bit (8 * i) n)) [7, 6, 5, 4, 3, 2, 1, 0]"

definition sha256_pad :: "8 word list \<Rightarrow> 8 word list" where
  "sha256_pad bs =
     bs @ [0x80] @ replicate ((119 - length bs mod 64) mod 64) 0
        @ be64 (8 * word_of_nat (length bs))"

fun be_words :: "8 word list \<Rightarrow> w32 list" where
  "be_words (b0 # b1 # b2 # b3 # bs) =
     (push_bit 24 (ucast b0) OR push_bit 16 (ucast b1) OR push_bit 8 (ucast b2) OR ucast b3)
     # be_words bs"
| "be_words _ = []"

primrec blocks :: "nat \<Rightarrow> 'a list \<Rightarrow> 'a list list" where
  "blocks 0 xs = []"
| "blocks (Suc n) xs = take 16 xs # blocks n (drop 16 xs)"

primrec schedule :: "nat \<Rightarrow> w32 list \<Rightarrow> w32 list" where
  "schedule 0 w = w"
| "schedule (Suc n) w =
     schedule n (w @ [sigma1 (w ! (length w - 2)) + w ! (length w - 7)
                      + sigma0 (w ! (length w - 15)) + w ! (length w - 16)])"

fun sha256_round :: "w32 list \<Rightarrow> w32 \<times> w32 \<Rightarrow> w32 list" where
  "sha256_round [a, b, c, d, e, f, g, h] (k, w) =
     (let t1 = h + Sigma1 e + Ch e f g + k + w;
          t2 = Sigma0 a + Maj a b c
      in [t1 + t2, a, b, c, d + t1, e, f, g])"
| "sha256_round s _ = s"

definition sha256_compress :: "w32 list \<Rightarrow> w32 list \<Rightarrow> w32 list" where
  "sha256_compress hs block =
     map2 (+) hs (foldl sha256_round hs (zip sha256_K (schedule 48 block)))"

definition sha256 :: "string \<Rightarrow> w32 list" where
  "sha256 s =
     (let ws = be_words (sha256_pad (map of_char s))
      in foldl sha256_compress sha256_H0 (blocks (length ws div 16) ws))"

definition hex_digit :: "nat \<Rightarrow> char" where
  "hex_digit n = ''0123456789abcdef'' ! (n mod 16)"

definition hex_word :: "w32 \<Rightarrow> string" where
  "hex_word w = map (\<lambda>i. hex_digit (unat (drop_bit (4 * i) w AND 0xF))) [7, 6, 5, 4, 3, 2, 1, 0]"

definition hexdigest :: "w32 list \<Rightarrow> string" where
  "hexdigest hs = concat (map hex_word hs)"

section \<open>sc2reader/objects.py: the score-screen graph\<close>

text \<open>
  \<^verbatim>\<open>
  class Graph():
      def __init__(self, x, y, xy_list=None):
          self.times = list()
          self.values = list()
          if xy_list:
              for x, y in xy_list:
                  self.times.append(x)
                  self.values.append(y)
          else:
              self.times = x
              self.values = y
      def as_points(self):
          return zip(self.times, self.values)
  \<close>
  The attributes \<open>times\<close> and \<open>values\<close> are the record fields \<open>graph_times\<close> and
  \<open>graph_values\<close> (\<open>times\<close> is the constant of multiplication in HOL, \<open>values\<close> a keyword).
  The default \<open>xy_list=None\<close> is the value \<open>None\<close>; a list that is given is \<open>Some l\<close>.
\<close>

record ('a, 'b) Graph =
  graph_times :: "'a list"
  graph_values :: "'b list"

text \<open>Python's truth value of \<open>xy_list\<close>: \<open>None\<close> and the empty list are false.\<close>

fun truthy :: "'c list option \<Rightarrow> bool" where
  "truthy None = False"
| "truthy (Some l) = (l \<noteq> [])"

text \<open>The \<open>for\<close> loop, appending to both lists in turn.\<close>

fun append_pairs :: "('a, 'b) Graph \<Rightarrow> ('a \<times> 'b) list \<Rightarrow> ('a, 'b) Graph" where
  "append_pairs g [] = g"
| "append_pairs g ((x, y) # xys) =
     append_pairs (g\<lparr>graph_times := graph_times g @ [x], graph_values := graph_values g @ [y]\<rparr>) xys"

definition Graph_init :: "'a list \<Rightarrow> 'b list \<Rightarrow> ('a \<times> 'b) list option \<Rightarrow> ('a, 'b) Graph" where
  "Graph_init x y xy_list =
     (let self = \<lparr>graph_times = [], graph_values = []\<rparr> in
      if truthy xy_list
      then (case xy_list of Some l \<Rightarrow> append_pairs self l | None \<Rightarrow> self)
      else self\<lparr>graph_times := x, graph_values := y\<rparr>)"

definition as_points :: "('a, 'b) Graph \<Rightarrow> ('a \<times> 'b) list" where
  "as_points self = zip (graph_times self) (graph_values self)"

section \<open>sc2reader/objects.py: Attribute\<close>

text \<open>
  \<^verbatim>\<open>
  class Attribute(object):
      def __init__(self, header, attr_id, player, value):
          self.header = header
          self.id = attr_id
          self.player = player
          if self.id not in LOBBY_PROPERTIES:
              raise ValueError("Unknown attribute id: "+self.id)
          else:
              self.name, lookup = LOBBY_PROPERTIES[self.id]
              self.value = lookup[value.strip("\x00 ")[::-1]]
  \<close>
  \<^verbatim>\<open>LOBBY_PROPERTIES\<close> comes from \<^verbatim>\<open>sc2reader.constants\<close> and is a parameter here: a dict
  from an attribute id to a pair of a name and a dict of values. The fields carry the prefix
  \<open>attr_\<close> (\<open>id\<close> is the identity function of HOL, \<open>value\<close> a keyword).
\<close>

record 'v Attribute =
  attr_header :: int
  attr_id :: pyval
  attr_player :: int
  attr_name :: string
  attr_value :: 'v

type_synonym 'v lobby_properties = "pyval \<rightharpoonup> (string \<times> (string \<rightharpoonup> 'v))"

definition attribute_padding :: string where
  "attribute_padding = [CHR 0x00, CHR '' '']"

definition Attribute_init ::
  "'v lobby_properties \<Rightarrow> int \<Rightarrow> pyval \<Rightarrow> int \<Rightarrow> string \<Rightarrow> py_error + 'v Attribute" where
  "Attribute_init LOBBY_PROPERTIES header attr_ident player raw =
     (case LOBBY_PROPERTIES attr_ident of
        None \<Rightarrow>
          (case py_str_add ''Unknown attribute id: '' attr_ident of
             Inl e \<Rightarrow> Inl e
           | Inr msg \<Rightarrow> Inl (ValueError msg))
      | Some (nm, lookup) \<Rightarrow>
          (case py_getitem lookup (rev (py_strip raw attribute_padding)) of
             Inl e \<Rightarrow> Inl e
           | Inr v \<Rightarrow>
               Inr \<lparr>attr_header = header, attr_id = attr_ident, attr_player = player,
                    attr_name = nm, attr_value = v\<rparr>))"

text \<open>
  The decoding as the specification words it, for comparison: only the trailing padding is
  stripped before the bytes are reversed and looked up.
\<close>

definition spec_decode :: "'v lobby_properties \<Rightarrow> pyval \<Rightarrow> string \<Rightarrow> (string \<times> 'v) option" where
  "spec_decode LOBBY_PROPERTIES attr_ident raw =
     (case LOBBY_PROPERTIES attr_ident of
        None \<Rightarrow> None
      | Some (nm, lookup) \<Rightarrow>
          (case lookup (rev (py_rstrip raw attribute_padding)) of
             None \<Rightarrow> None
           | Some v \<Rightarrow> Some (nm, v)))"

text \<open>What a decoding that succeeded holds, as a pair of name and value.\<close>

definition decoded :: "py_error + 'v Attribute \<Rightarrow> (string \<times> 'v) option" where
  "decoded r = (case r of Inl e \<Rightarrow> None | Inr a \<Rightarrow> Some (attr_name a, attr_value a))"

section \<open>sc2reader/objects.py: Entity, Player, User and their combinations\<close>

text \<open>
  The records the constructors read. \<^verbatim>\<open>slot_data\<close> and \<^verbatim>\<open>init_data\<close> are dicts, read at
  the keys below; \<^verbatim>\<open>detail_data\<close> is an object with the attributes below, its \<^verbatim>\<open>color\<close> a
  \<^verbatim>\<open>ColorData\<close> and its \<^verbatim>\<open>bnet\<close> a \<^verbatim>\<open>BnetData\<close>; \<^verbatim>\<open>attribute_data\<close> is a dict from attribute
  names to values. A \<^verbatim>\<open>toon_handle\<close> that is \<^verbatim>\<open>None\<close> is \<open>None\<close>.
\<close>

record SlotData =
  slot_handicap :: int
  slot_team_id :: int
  slot_control :: int
  slot_observe :: int
  slot_toon_handle :: "string option"

record InitData =
  init_clan_tag :: string
  init_name :: string
  init_combined_race_levels :: int
  init_highest_league :: int

record ColorData =
  color_a :: int
  color_r :: int
  color_g :: int
  color_b :: int

record BnetData =
  bnet_gateway :: int
  bnet_unknown2 :: int
  bnet_subregion :: int
  bnet_uid :: int

record DetailData =
  detail_result :: int
  detail_race :: string
  detail_color :: ColorData
  detail_bnet :: BnetData
  detail_name :: string

type_synonym AttributeData = "string \<rightharpoonup> string"

text \<open>
  An instance is its class and its attributes. An attribute that no constructor has assigned
  yet is \<open>None\<close>; an attribute that holds Python's \<^verbatim>\<open>None\<close> is \<open>Some None\<close>. The lists of
  events, messages and units hold references to objects of other modules (here numbers) and
  are empty after construction; \<^verbatim>\<open>utils.Color\<close> is built from the four components of the
  \<^verbatim>\<open>ColorData\<close>, which stand for it. \<^verbatim>\<open>team\<close> refers to a \<^verbatim>\<open>Team\<close>, here by its number.
\<close>

datatype pyclass = Entity | Player | User | Observer | Computer | Participant

record obj =
  cls :: pyclass
  sid :: "int option"
  slot_data :: "SlotData option"
  handicap :: "int option"
  team_id :: "int option"
  is_human :: "bool option"
  is_observer :: "bool option"
  is_referee :: "bool option"
  toon_handle :: "string option option"
  region :: "string option"
  gateway :: "string option"
  subregion :: "int option"
  toon_id :: "int option"
  events :: "nat list option"
  messages :: "nat list option"
  uid :: "int option"
  init_data :: "InitData option"
  clan_tag :: "string option"
  name :: "string option"
  combined_race_levels :: "int option"
  highest_league :: "int option"
  recorder :: "bool option option"
  pid :: "int option option"
  detail_data :: "DetailData option"
  attribute_data :: "AttributeData option"
  result :: "string option option"
  team :: "int option option"
  pick_race :: "string option"
  difficulty :: "string option"
  play_race :: "string option"
  color :: "ColorData option"
  units :: "nat list option"
  killed_units :: "nat list option"

definition new_object :: "pyclass \<Rightarrow> obj" where
  "new_object c =
     \<lparr>cls = c, sid = None, slot_data = None, handicap = None, team_id = None, is_human = None,
      is_observer = None, is_referee = None, toon_handle = None, region = None, gateway = None,
      subregion = None, toon_id = None, events = None, messages = None, uid = None,
      init_data = None, clan_tag = None, name = None, combined_race_levels = None,
      highest_league = None, recorder = None, pid = None, detail_data = None,
      attribute_data = None, result = None, team = None, pick_race = None, difficulty = None,
      play_race = None, color = None, units = None, killed_units = None\<rparr>"

text \<open>
  \<^verbatim>\<open>GATEWAY_LOOKUP\<close> and \<^verbatim>\<open>LOCALIZED_RACES\<close> come from \<^verbatim>\<open>sc2reader.constants\<close> and are
  parameters: dicts from a gateway id to a region code and from a race code to a race name.
\<close>

text \<open>
  \<^verbatim>\<open>
  class Entity(object):
      def __init__(self, sid, slot_data):
          self.sid = int(sid)
          self.slot_data = slot_data
          self.handicap = slot_data['handicap']
          self.team_id = slot_data['team_id']+1
          self.is_human = slot_data['control'] == 2
          self.is_observer = slot_data['observe'] != 0
          self.is_referee = slot_data['observe'] == 2
          self.toon_handle = slot_data['toon_handle']
          toon_handle = self.toon_handle or "0-S2-0-0"
          parts = toon_handle.split("-")
          self.region = GATEWAY_LOOKUP[int(parts[0])]
          self.gateway = self.region
          self.subregion = int(parts[2])
          self.toon_id = int(parts[3])
          self.events = list()
          self.messages = list()
  \<close>
  An exception leaves the constructor, and no object is returned.
\<close>

definition handle_or_placeholder :: "string option \<Rightarrow> string" where
  "handle_or_placeholder h =
     (case h of None \<Rightarrow> ''0-S2-0-0'' | Some s \<Rightarrow> if s = [] then ''0-S2-0-0'' else s)"

definition Entity_init :: "(int \<rightharpoonup> string) \<Rightarrow> obj \<Rightarrow> int \<Rightarrow> SlotData \<Rightarrow> py_error + obj" where
  "Entity_init GATEWAY_LOOKUP self sid_arg slot =
     (let self1 = self\<lparr>sid := Some sid_arg, slot_data := Some slot,
                       handicap := Some (slot_handicap slot),
                       team_id := Some (slot_team_id slot + 1),
                       is_human := Some (slot_control slot = 2),
                       is_observer := Some (slot_observe slot \<noteq> 0),
                       is_referee := Some (slot_observe slot = 2),
                       toon_handle := Some (slot_toon_handle slot)\<rparr>;
          parts = py_split (handle_or_placeholder (slot_toon_handle slot)) CHR ''-''
      in case py_index parts 0 of Inl e \<Rightarrow> Inl e | Inr p0 \<Rightarrow>
         case py_int p0 of Inl e \<Rightarrow> Inl e | Inr g \<Rightarrow>
         case py_getitem GATEWAY_LOOKUP g of Inl e \<Rightarrow> Inl e | Inr r \<Rightarrow>
         case py_index parts 2 of Inl e \<Rightarrow> Inl e | Inr p2 \<Rightarrow>
         case py_int p2 of Inl e \<Rightarrow> Inl e | Inr sub \<Rightarrow>
         case py_index parts 3 of Inl e \<Rightarrow> Inl e | Inr p3 \<Rightarrow>
         case py_int p3 of Inl e \<Rightarrow> Inl e | Inr toon \<Rightarrow>
           Inr (self1\<lparr>region := Some r, gateway := Some r, subregion := Some sub,
                       toon_id := Some toon, events := Some [], messages := Some []\<rparr>))"

text \<open>
  \<^verbatim>\<open>
  class Player(object):
      def __init__(self, pid, detail_data, attribute_data):
          self.pid = int(pid)
          self.detail_data = detail_data
          self.attribute_data = attribute_data
          self.result = None
          if detail_data.result == 1:
              self.result = "Win"
          elif detail_data.result == 2:
              self.result = "Loss"
          self.team = None
          self.pick_race = attribute_data.get('Race', 'Unknown')
          self.difficulty = attribute_data.get('Difficulty', 'Unknown')
          self.play_race = LOCALIZED_RACES.get(detail_data.race, detail_data.race)
          self.color = utils.Color(**detail_data.color._asdict())
          self.units = list()
          self.killed_units = list()
          self.region = GATEWAY_LOOKUP[detail_data.bnet.gateway]
          self.gateway = self.region
          self.subregion = detail_data.bnet.subregion
          self.toon_id = detail_data.bnet.uid
  \<close>
\<close>

definition dict_get :: "('k \<rightharpoonup> 'v) \<Rightarrow> 'k \<Rightarrow> 'v \<Rightarrow> 'v" where
  "dict_get d k dflt = (case d k of None \<Rightarrow> dflt | Some v \<Rightarrow> v)"

definition Player_init ::
  "(int \<rightharpoonup> string) \<Rightarrow> (string \<rightharpoonup> string) \<Rightarrow> obj \<Rightarrow> int \<Rightarrow> DetailData \<Rightarrow> AttributeData
   \<Rightarrow> py_error + obj" where
  "Player_init GATEWAY_LOOKUP LOCALIZED_RACES self pid_arg detail attrs =
     (let self1 = self\<lparr>pid := Some (Some pid_arg), detail_data := Some detail,
                       attribute_data := Some attrs, result := Some None\<rparr>;
          self2 = (if detail_result detail = 1 then self1\<lparr>result := Some (Some ''Win'')\<rparr>
                   else if detail_result detail = 2 then self1\<lparr>result := Some (Some ''Loss'')\<rparr>
                   else self1);
          self3 = self2\<lparr>team := Some None,
                        pick_race := Some (dict_get attrs ''Race'' ''Unknown''),
                        difficulty := Some (dict_get attrs ''Difficulty'' ''Unknown''),
                        play_race :=
                          Some (dict_get LOCALIZED_RACES (detail_race detail) (detail_race detail)),
                        color := Some (detail_color detail),
                        units := Some [], killed_units := Some []\<rparr>
      in case py_getitem GATEWAY_LOOKUP (bnet_gateway (detail_bnet detail)) of
           Inl e \<Rightarrow> Inl e
         | Inr r \<Rightarrow>
             Inr (self3\<lparr>region := Some r, gateway := Some r,
                         subregion := Some (bnet_subregion (detail_bnet detail)),
                         toon_id := Some (bnet_uid (detail_bnet detail))\<rparr>))"

text \<open>
  \<^verbatim>\<open>
  class User(object):
      URL_TEMPLATE = "http://{region}.battle.net/sc2/en/profile/{toon_id}/{subregion}/{name}/"
      def __init__(self, uid, init_data):
          self.uid = int(uid)
          self.init_data = init_data
          self.clan_tag = init_data['clan_tag']
          self.name = init_data['name']
          self.combined_race_levels = init_data['combined_race_levels']
          self.highest_league = init_data['highest_league']
          self.recorder = None
      @property
      def url(self):
          return self.URL_TEMPLATE.format(**self.__dict__)
  \<close>
  \<^verbatim>\<open>format\<close> reads the fields of the template from left to right in the attributes of the
  instance, a missing one being a \<^verbatim>\<open>KeyError\<close>. The property exists on the classes that
  extend \<^verbatim>\<open>User\<close>; reading it on another instance is an \<^verbatim>\<open>AttributeError\<close>.
\<close>

definition User_init :: "obj \<Rightarrow> int \<Rightarrow> InitData \<Rightarrow> obj" where
  "User_init self uid_arg init =
     self\<lparr>uid := Some uid_arg, init_data := Some init,
          clan_tag := Some (init_clan_tag init), name := Some (init_name init),
          combined_race_levels := Some (init_combined_race_levels init),
          highest_league := Some (init_highest_league init),
          recorder := Some None\<rparr>"

definition extends_User :: "pyclass \<Rightarrow> bool" where
  "extends_User c = (c = User \<or> c = Observer \<or> c = Participant)"

definition URL_TEMPLATE_format :: "obj \<Rightarrow> py_error + string" where
  "URL_TEMPLATE_format self =
     (case region self of None \<Rightarrow> Inl KeyError | Some r \<Rightarrow>
      case toon_id self of None \<Rightarrow> Inl KeyError | Some t \<Rightarrow>
      case subregion self of None \<Rightarrow> Inl KeyError | Some sub \<Rightarrow>
      case name self of None \<Rightarrow> Inl KeyError | Some n \<Rightarrow>
        Inr (''http://'' @ r @ ''.battle.net/sc2/en/profile/'' @ py_str t @ ''/''
             @ py_str sub @ ''/'' @ n @ ''/''))"

definition url :: "obj \<Rightarrow> py_error + string" where
  "url self = (if extends_User (cls self) then URL_TEMPLATE_format self else Inl AttributeError)"

text \<open>
  \<^verbatim>\<open>
  class Observer(Entity, User):
      def __init__(self, sid, slot_data, uid, init_data, pid):
          Entity.__init__(self, sid, slot_data)
          User.__init__(self, uid, init_data)
          self.pid = pid
  class Computer(Entity, Player):
      def __init__(self, sid, slot_data, pid, detail_data, attribute_data):
          Entity.__init__(self, sid, slot_data)
          Player.__init__(self, pid, detail_data, attribute_data)
          self.name = detail_data.name
  class Participant(Entity, User, Player):
      def __init__(self, sid, slot_data, uid, init_data, pid, detail_data, attribute_data):
          Entity.__init__(self, sid, slot_data)
          User.__init__(self, uid, init_data)
          Player.__init__(self, pid, detail_data, attribute_data)
  \<close>
  The \<^verbatim>\<open>pid\<close> of an observer is stored as it is given, and may be \<^verbatim>\<open>None\<close>.
\<close>

definition Observer_init ::
  "(int \<rightharpoonup> string) \<Rightarrow> int \<Rightarrow> SlotData \<Rightarrow> int \<Rightarrow> InitData \<Rightarrow> int option \<Rightarrow> py_error + obj" where
  "Observer_init GATEWAY_LOOKUP sid_arg slot uid_arg init pid_arg =
     (case Entity_init GATEWAY_LOOKUP (new_object Observer) sid_arg slot of
        Inl e \<Rightarrow> Inl e
      | Inr self1 \<Rightarrow> Inr ((User_init self1 uid_arg init)\<lparr>pid := Some pid_arg\<rparr>))"

definition Computer_init ::
  "(int \<rightharpoonup> string) \<Rightarrow> (string \<rightharpoonup> string) \<Rightarrow> int \<Rightarrow> SlotData \<Rightarrow> int \<Rightarrow> DetailData
   \<Rightarrow> AttributeData \<Rightarrow> py_error + obj" where
  "Computer_init GATEWAY_LOOKUP LOCALIZED_RACES sid_arg slot pid_arg detail attrs =
     (case Entity_init GATEWAY_LOOKUP (new_object Computer) sid_arg slot of
        Inl e \<Rightarrow> Inl e
      | Inr self1 \<Rightarrow>
          (case Player_init GATEWAY_LOOKUP LOCALIZED_RACES self1 pid_arg detail attrs of
             Inl e \<Rightarrow> Inl e
           | Inr self2 \<Rightarrow> Inr (self2\<lparr>name := Some (detail_name detail)\<rparr>)))"

definition Participant_init ::
  "(int \<rightharpoonup> string) \<Rightarrow> (string \<rightharpoonup> string) \<Rightarrow> int \<Rightarrow> SlotData \<Rightarrow> int \<Rightarrow> InitData \<Rightarrow> int
   \<Rightarrow> DetailData \<Rightarrow> AttributeData \<Rightarrow> py_error + obj" where
  "Participant_init GATEWAY_LOOKUP LOCALIZED_RACES sid_arg slot uid_arg init pid_arg detail attrs =
     (case Entity_init GATEWAY_LOOKUP (new_object Participant) sid_arg slot of
        Inl e \<Rightarrow> Inl e
      | Inr self1 \<Rightarrow>
          Player_init GATEWAY_LOOKUP LOCALIZED_RACES (User_init self1 uid_arg init)
            pid_arg detail attrs)"

section \<open>sc2reader/objects.py: Team\<close>







section \<open>Sample tables and records\<close>

text \<open>
  Small instances of the tables of \<^verbatim>\<open>sc2reader.constants\<close> and of the records read from a
  replay, on which the results below are evaluated.
\<close>

definition sample_gateways :: "int \<rightharpoonup> string" where
  "sample_gateways = map_of [(0, ''''), (1, ''us''), (2, ''eu''), (3, ''kr'')]"

definition sample_races :: "string \<rightharpoonup> string" where
  "sample_races = map_of [(''Terraner'', ''Terran''), (''Protoss'', ''Protoss''), (''Zerg'', ''Zerg'')]"

definition sample_lobby :: "string lobby_properties" where
  "sample_lobby =
     map_of [(PyInt 3001, (''Race'', map_of [(''Terr'', ''Terran''), (''Zerg'', ''Zerg''),
                                             (''Prot'', ''Protoss''), (''RAND'', ''Random'')]))]"

definition sample_slot :: "string option \<Rightarrow> SlotData" where
  "sample_slot h =
     \<lparr>slot_handicap = 100, slot_team_id = 0, slot_control = 2, slot_observe = 0,
      slot_toon_handle = h\<rparr>"

definition sample_init :: "string \<Rightarrow> InitData" where
  "sample_init nm =
     \<lparr>init_clan_tag = [], init_name = nm, init_combined_race_levels = 0,
      init_highest_league = 0\<rparr>"

definition sample_detail :: "int \<Rightarrow> string \<Rightarrow> int \<Rightarrow> DetailData" where
  "sample_detail res race account =
     \<lparr>detail_result = res, detail_race = race,
      detail_color = \<lparr>color_a = 255, color_r = 180, color_g = 20, color_b = 30\<rparr>,
      detail_bnet = \<lparr>bnet_gateway = 2, bnet_unknown2 = 0, bnet_subregion = 1,
                     bnet_uid = account\<rparr>,
      detail_name = ''A.I. 1 (Medium)''\<rparr>"

definition sample_participant :: "string \<Rightarrow> int \<Rightarrow> string \<Rightarrow> int \<Rightarrow> py_error + obj" where
  "sample_participant nm res race account =
     Participant_init sample_gateways sample_races 1 (sample_slot (Some ''1-S2-2-555'')) 1
       (sample_init nm) 1 (sample_detail res race account) Map.empty"

definition sample_computer :: "int \<Rightarrow> string \<Rightarrow> py_error + obj" where
  "sample_computer res race =
     Computer_init sample_gateways sample_races 2 (sample_slot None) 2
       (sample_detail res race 0) Map.empty"





section \<open>Properties of the graph\<close>

lemma append_pairs_times:
  "graph_times (append_pairs g xys) = graph_times g @ map fst xys"
  by (induction g xys rule: append_pairs.induct) simp_all

lemma append_pairs_values:
  "graph_values (append_pairs g xys) = graph_values g @ map snd xys"
  by (induction g xys rule: append_pairs.induct) simp_all

lemma Graph_init_paired:
  "xys \<noteq> [] \<Longrightarrow>
   Graph_init x y (Some xys) = \<lparr>graph_times = map fst xys, graph_values = map snd xys\<rparr>"
  by (simp add: Graph_init_def append_pairs_times append_pairs_values)

lemma Graph_init_parallel:
  "Graph_init x y None = \<lparr>graph_times = x, graph_values = y\<rparr>"
  by (simp add: Graph_init_def)

lemma Graph_init_empty_pairs:
  "Graph_init x y (Some []) = \<lparr>graph_times = x, graph_values = y\<rparr>"
  by (simp add: Graph_init_def)

lemma Graph_paths_agree:
  assumes "xys \<noteq> [] \<or> (x = [] \<and> y = [])"
  shows "Graph_init x y (Some xys) = Graph_init (map fst xys) (map snd xys) None
       \<and> as_points (Graph_init x y (Some xys)) = xys
       \<and> as_points (Graph_init (map fst xys) (map snd xys) None) = xys"
proof (cases "xys = []")
  case True
  with assms have "x = []" "y = []" by simp_all
  with True show ?thesis
    by (simp add: Graph_init_empty_pairs Graph_init_parallel as_points_def)
next
  case False
  then show ?thesis
    by (simp add: Graph_init_paired Graph_init_parallel as_points_def zip_map_fst_snd)
qed

text \<open>
  C8. The constructor takes \<open>x\<close> and \<open>y\<close> by position also when the pairs are given, so
  building from a paired sequence is the call with empty \<open>x\<close> and \<open>y\<close> and the pairs as
  \<open>xy_list\<close>. For every list of pairs, the empty one included, that call and the call
  with the two split sequences give the same object, and \<open>as_points\<close> gives back the list
  of pairs on both. \<open>as_points\<close> reads the object and changes nothing, so every call
  returns the same list.
\<close>

theorem Graph_paths_equivalent:
  "Graph_init [] [] (Some xys) = Graph_init (map fst xys) (map snd xys) None
   \<and> as_points (Graph_init [] [] (Some xys)) = xys
   \<and> as_points (Graph_init (map fst xys) (map snd xys) None) = xys"
  using Graph_paths_agree [of xys "[]" "[]"] by simp

text \<open>The example of the specification: the samples (0, 10) and (5, 20).\<close>

theorem Graph_paths_equivalent_witness:
  "Graph_init [] [] (Some [(0::int, 10::int), (5, 20)]) = Graph_init [0, 5] [10, 20] None
   \<and> as_points (Graph_init [] [] (Some [(0::int, 10::int), (5, 20)])) = [(0, 10), (5, 20)]
   \<and> as_points (Graph_init [0::int, 5] [10::int, 20] None) = [(0, 10), (5, 20)]"
  using Graph_paths_equivalent [of "[(0::int, 10::int), (5, 20)]"] by simp

text \<open>
  C9 (as amended). The two sequences of a graph have the same length when it is built from a
  non-empty list of pairs, or from two sequences that have the same length; the constructor
  compares no lengths, and stores two sequences of different lengths as they are.
\<close>

theorem Graph_lengths_equal:
  assumes "truthy xy_list \<or> length x = length y"
  shows "length (graph_times (Graph_init x y xy_list)) = length (graph_values (Graph_init x y xy_list))"
proof (cases "truthy xy_list")
  case True
  then obtain l where "xy_list = Some l" "l \<noteq> []"
    by (cases xy_list) auto
  then show ?thesis by (simp add: Graph_init_paired)
next
  case False
  with assms show ?thesis by (simp add: Graph_init_def)
qed

theorem Graph_lengths_equal_witness:
  "length (graph_times (Graph_init [7::int] [] (Some [(0::int, 10::int), (5, 20)])))
   = length (graph_values (Graph_init [7::int] [] (Some [(0::int, 10::int), (5, 20)])))
   \<and> length (graph_times (Graph_init [0::int, 5] [10::int, 20] None))
   = length (graph_values (Graph_init [0::int, 5] [10::int, 20] None))"
  using Graph_lengths_equal [of "Some [(0::int, 10::int), (5, 20)]" "[7::int]" "[]"]
        Graph_lengths_equal [of "None :: (int \<times> int) list option" "[0::int, 5]" "[10::int, 20]"]
  by simp

theorem Graph_lengths_counterexample:
  "length (graph_times (Graph_init [0::int, 5] [10::int] None))
   \<noteq> length (graph_values (Graph_init [0::int, 5] [10::int] None))"
  by (simp add: Graph_init_def)

section \<open>Properties of the constructors\<close>

lemma Entity_init_fields:
  assumes "Entity_init G self s slot = Inr p"
  shows "cls p = cls self" and "team_id p = Some (slot_team_id slot + 1)"
    and "name p = name self" and "gateway p = region p"
    and "toon_handle p = Some (slot_toon_handle slot)"
  using assms
  by (auto simp: Entity_init_def Let_def split: sum.splits)

lemma User_init_fields:
  "cls (User_init self u init) = cls self"
  "team_id (User_init self u init) = team_id self"
  "name (User_init self u init) = Some (init_name init)"
  by (simp_all add: User_init_def)

lemma Player_init_fields:
  assumes "Player_init G L self p detail attrs = Inr ob"
  shows "cls ob = cls self" and "team_id ob = team_id self" and "name ob = name self"
    and "G (bnet_gateway (detail_bnet detail)) \<noteq> None"
    and "region ob = G (bnet_gateway (detail_bnet detail))"
    and "gateway ob = G (bnet_gateway (detail_bnet detail))"
    and "subregion ob = Some (bnet_subregion (detail_bnet detail))"
    and "toon_id ob = Some (bnet_uid (detail_bnet detail))"
    and "result ob = Some (if detail_result detail = 1 then Some ''Win''
                           else if detail_result detail = 2 then Some ''Loss'' else None)"
    and "team ob = Some None"
    and "play_race ob = Some (dict_get L (detail_race detail) (detail_race detail))"
  using assms
  by (auto simp: Player_init_def Let_def py_getitem_def split: option.splits if_splits)

lemma Participant_init_Inr:
  assumes "Participant_init G L s slot u init p detail attrs = Inr ob"
  obtains e where "Entity_init G (new_object Participant) s slot = Inr e"
    and "Player_init G L (User_init e u init) p detail attrs = Inr ob"
  using assms by (auto simp: Participant_init_def split: sum.splits)

lemma Computer_init_Inr:
  assumes "Computer_init G L s slot p detail attrs = Inr ob"
  obtains e pl where "Entity_init G (new_object Computer) s slot = Inr e"
    and "Player_init G L e p detail attrs = Inr pl"
    and "ob = pl\<lparr>name := Some (detail_name detail)\<rparr>"
  using assms by (auto simp: Computer_init_def split: sum.splits)

text \<open>
  C7. When the constructor of a \<^verbatim>\<open>Participant\<close> returns an object, its team number
  \<^verbatim>\<open>team_id\<close> is the \<^verbatim>\<open>team_id\<close> of the slot plus one: \<^verbatim>\<open>Entity.__init__\<close> assigns it, and
  neither \<^verbatim>\<open>User.__init__\<close> nor \<^verbatim>\<open>Player.__init__\<close> touches it. (The attribute \<^verbatim>\<open>team\<close> is
  the reference to the \<^verbatim>\<open>Team\<close> object, which \<^verbatim>\<open>Player.__init__\<close> leaves \<^verbatim>\<open>None\<close>.)
\<close>

theorem Participant_team_number:
  assumes "Participant_init G L s slot u init p detail attrs = Inr ob"
  shows "team_id ob = Some (slot_team_id slot + 1)"
proof -
  from assms obtain e where e: "Entity_init G (new_object Participant) s slot = Inr e"
    and pl: "Player_init G L (User_init e u init) p detail attrs = Inr ob"
    by (rule Participant_init_Inr)
  have "team_id ob = team_id (User_init e u init)"
    using pl by (rule Player_init_fields)
  also have "\<dots> = team_id e" by (rule User_init_fields)
  also have "\<dots> = Some (slot_team_id slot + 1)"
    using e by (rule Entity_init_fields)
  finally show ?thesis .
qed

lemmas py_int_defs =
  py_int_def py_strip_def py_lstrip_def py_rstrip_def py_whitespace_def is_digit_def digit_val_def

lemma Entity_init_sample:
  "Entity_init sample_gateways self s (sample_slot (Some ''1-S2-2-555'')) =
   Inr (self\<lparr>sid := Some s, slot_data := Some (sample_slot (Some ''1-S2-2-555'')),
              handicap := Some 100, team_id := Some 1, is_human := Some True,
              is_observer := Some False, is_referee := Some False,
              toon_handle := Some (Some ''1-S2-2-555''), region := Some ''us'',
              gateway := Some ''us'', subregion := Some 2, toon_id := Some 555,
              events := Some [], messages := Some []\<rparr>)"
  by (simp add: Entity_init_def sample_gateways_def sample_slot_def handle_or_placeholder_def
      py_index_def py_getitem_def py_int_defs)

lemma sample_gateways_eu: "sample_gateways 2 = Some ''eu''"
  by (simp add: sample_gateways_def)

lemma sample_participant_Inr:
  "sample_participant nm res race account = Inr (projr (sample_participant nm res race account))"
  by (simp add: sample_participant_def Participant_init_def Entity_init_sample Player_init_def
      Let_def py_getitem_def sample_detail_def sample_gateways_eu)

text \<open>The sample participant exists, and is in the first team.\<close>

theorem Participant_team_number_witness:
  "sample_participant ''Alice'' 1 ''Zerg'' 777 = Inr (projr (sample_participant ''Alice'' 1 ''Zerg'' 777))
   \<and> slot_team_id (sample_slot (Some ''1-S2-2-555'')) = 0
   \<and> team_id (projr (sample_participant ''Alice'' 1 ''Zerg'' 777)) = Some 1"
  using Participant_team_number
    [OF sample_participant_Inr [of "''Alice''" 1 "''Zerg''" 777, unfolded sample_participant_def]]
    sample_participant_Inr [of "''Alice''" 1 "''Zerg''" 777]
  by (simp add: sample_participant_def sample_slot_def)

text \<open>
  C1 (as amended). The outcome of a composed participant or computer player is \<^verbatim>\<open>"Win"\<close> for
  the result code 1, \<^verbatim>\<open>"Loss"\<close> for the code 2, and \<^verbatim>\<open>None\<close> for every other code.
\<close>

theorem outcome_of_result_code:
  "(Participant_init G L s slot u init p detail attrs = Inr ob \<longrightarrow>
      result ob = Some (if detail_result detail = 1 then Some ''Win''
                        else if detail_result detail = 2 then Some ''Loss'' else None))
   \<and> (Computer_init G L s slot p detail attrs = Inr ob \<longrightarrow>
      result ob = Some (if detail_result detail = 1 then Some ''Win''
                        else if detail_result detail = 2 then Some ''Loss'' else None))"
proof (intro conjI impI)
  assume "Participant_init G L s slot u init p detail attrs = Inr ob"
  then obtain e where "Player_init G L (User_init e u init) p detail attrs = Inr ob"
    by (rule Participant_init_Inr)
  then show "result ob = Some (if detail_result detail = 1 then Some ''Win''
                               else if detail_result detail = 2 then Some ''Loss'' else None)"
    by (rule Player_init_fields)
next
  assume "Computer_init G L s slot p detail attrs = Inr ob"
  then obtain e pl where pl: "Player_init G L e p detail attrs = Inr pl"
    and ob: "ob = pl\<lparr>name := Some (detail_name detail)\<rparr>"
    by (rule Computer_init_Inr)
  from pl have "result pl = Some (if detail_result detail = 1 then Some ''Win''
                                  else if detail_result detail = 2 then Some ''Loss'' else None)"
    by (rule Player_init_fields)
  with ob show "result ob = Some (if detail_result detail = 1 then Some ''Win''
                                  else if detail_result detail = 2 then Some ''Loss'' else None)"
    by simp
qed

lemma Entity_init_no_handle:
  "Entity_init sample_gateways self s (sample_slot None) =
   Inr (self\<lparr>sid := Some s, slot_data := Some (sample_slot None),
              handicap := Some 100, team_id := Some 1, is_human := Some True,
              is_observer := Some False, is_referee := Some False,
              toon_handle := Some None, region := Some [],
              gateway := Some [], subregion := Some 0, toon_id := Some 0,
              events := Some [], messages := Some []\<rparr>)"
  by (simp add: Entity_init_def sample_gateways_def sample_slot_def handle_or_placeholder_def
      py_index_def py_getitem_def py_int_defs)

lemma sample_computer_Inr:
  "sample_computer res race = Inr (projr (sample_computer res race))"
  by (simp add: sample_computer_def Computer_init_def Entity_init_no_handle Player_init_def
      Let_def py_getitem_def sample_detail_def sample_gateways_eu)

theorem outcome_of_result_code_witness:
  "result (projr (sample_participant ''Alice'' 1 ''Zerg'' 777)) = Some (Some ''Win'')
   \<and> result (projr (sample_participant ''Alice'' 2 ''Zerg'' 777)) = Some (Some ''Loss'')
   \<and> result (projr (sample_participant ''Alice'' 0 ''Zerg'' 777)) = Some None
   \<and> result (projr (sample_computer 2 ''Terraner'')) = Some (Some ''Loss'')"
  using
    outcome_of_result_code [THEN conjunct1, rule_format,
      OF sample_participant_Inr [of "''Alice''" 1 "''Zerg''" 777, unfolded sample_participant_def]]
    outcome_of_result_code [THEN conjunct1, rule_format,
      OF sample_participant_Inr [of "''Alice''" 2 "''Zerg''" 777, unfolded sample_participant_def]]
    outcome_of_result_code [THEN conjunct1, rule_format,
      OF sample_participant_Inr [of "''Alice''" 0 "''Zerg''" 777, unfolded sample_participant_def]]
    outcome_of_result_code [THEN conjunct2, rule_format,
      OF sample_computer_Inr [of 2 "''Terraner''", unfolded sample_computer_def]]
  by (simp add: sample_participant_def sample_computer_def sample_detail_def)

text \<open>With the result code 3 the outcome is \<^verbatim>\<open>None\<close>, not \<^verbatim>\<open>"Unknown"\<close>.\<close>

theorem outcome_unknown_counterexample:
  "sample_participant ''Alice'' 3 ''Zerg'' 777 = Inr (projr (sample_participant ''Alice'' 3 ''Zerg'' 777))
   \<and> result (projr (sample_participant ''Alice'' 3 ''Zerg'' 777)) = Some None
   \<and> result (projr (sample_participant ''Alice'' 3 ''Zerg'' 777)) \<noteq> Some (Some ''Unknown'')"
proof -
  have "result (projr (sample_participant ''Alice'' 3 ''Zerg'' 777)) = Some None"
    by (simp add: sample_participant_def Participant_init_def Entity_init_sample Player_init_def
        Let_def py_getitem_def sample_detail_def sample_gateways_eu)
  then show ?thesis
    using sample_participant_Inr [of "''Alice''" 3 "''Zerg''" 777] by simp
qed

text \<open>
  C10. On a \<^verbatim>\<open>Participant\<close> and on a \<^verbatim>\<open>Computer\<close> the attributes \<^verbatim>\<open>region\<close>, \<^verbatim>\<open>gateway\<close>,
  \<^verbatim>\<open>subregion\<close> and \<^verbatim>\<open>toon_id\<close> hold what \<^verbatim>\<open>Player.__init__\<close> derives from the Battle.net
  tuple of the detail record: it runs after \<^verbatim>\<open>Entity.__init__\<close> and assigns over the values
  parsed from the handle of the slot. The profile URL of a \<^verbatim>\<open>Participant\<close> is therefore
  built from the region, account id and subregion of the detail record.
\<close>

theorem identity_from_detail_record:
  "(Participant_init G L s slot u init p detail attrs = Inr ob \<longrightarrow>
      (\<exists>r. G (bnet_gateway (detail_bnet detail)) = Some r
         \<and> region ob = Some r \<and> gateway ob = Some r
         \<and> subregion ob = Some (bnet_subregion (detail_bnet detail))
         \<and> toon_id ob = Some (bnet_uid (detail_bnet detail))
         \<and> url ob = Inr (''http://'' @ r @ ''.battle.net/sc2/en/profile/''
                          @ py_str (bnet_uid (detail_bnet detail)) @ ''/''
                          @ py_str (bnet_subregion (detail_bnet detail)) @ ''/''
                          @ init_name init @ ''/'')))
   \<and> (Computer_init G L s slot p detail attrs = Inr ob \<longrightarrow>
      (\<exists>r. G (bnet_gateway (detail_bnet detail)) = Some r
         \<and> region ob = Some r \<and> gateway ob = Some r
         \<and> subregion ob = Some (bnet_subregion (detail_bnet detail))
         \<and> toon_id ob = Some (bnet_uid (detail_bnet detail))))"
proof (intro conjI impI)
  assume "Participant_init G L s slot u init p detail attrs = Inr ob"
  then obtain e where e: "Entity_init G (new_object Participant) s slot = Inr e"
    and pl: "Player_init G L (User_init e u init) p detail attrs = Inr ob"
    by (rule Participant_init_Inr)
  from pl obtain r where r: "G (bnet_gateway (detail_bnet detail)) = Some r"
    using Player_init_fields(4) by blast
  have fields: "region ob = Some r" "gateway ob = Some r"
    "subregion ob = Some (bnet_subregion (detail_bnet detail))"
    "toon_id ob = Some (bnet_uid (detail_bnet detail))"
    using Player_init_fields(5-8) [OF pl] r by simp_all
  have "cls ob = cls (User_init e u init)" "name ob = name (User_init e u init)"
    using pl by (rule Player_init_fields)+
  moreover have "cls e = Participant"
    using Entity_init_fields(1) [OF e] by (simp add: new_object_def)
  ultimately have "cls ob = Participant" "name ob = Some (init_name init)"
    by (simp_all add: User_init_fields)
  with fields have "url ob = Inr (''http://'' @ r @ ''.battle.net/sc2/en/profile/''
                          @ py_str (bnet_uid (detail_bnet detail)) @ ''/''
                          @ py_str (bnet_subregion (detail_bnet detail)) @ ''/''
                          @ init_name init @ ''/'')"
    by (simp add: url_def extends_User_def URL_TEMPLATE_format_def)
  with r fields show "\<exists>r. G (bnet_gateway (detail_bnet detail)) = Some r
         \<and> region ob = Some r \<and> gateway ob = Some r
         \<and> subregion ob = Some (bnet_subregion (detail_bnet detail))
         \<and> toon_id ob = Some (bnet_uid (detail_bnet detail))
         \<and> url ob = Inr (''http://'' @ r @ ''.battle.net/sc2/en/profile/''
                          @ py_str (bnet_uid (detail_bnet detail)) @ ''/''
                          @ py_str (bnet_subregion (detail_bnet detail)) @ ''/''
                          @ init_name init @ ''/'')"
    by simp
next
  assume "Computer_init G L s slot p detail attrs = Inr ob"
  then obtain e pl where pl: "Player_init G L e p detail attrs = Inr pl"
    and ob: "ob = pl\<lparr>name := Some (detail_name detail)\<rparr>"
    by (rule Computer_init_Inr)
  from pl obtain r where r: "G (bnet_gateway (detail_bnet detail)) = Some r"
    using Player_init_fields(4) by blast
  have "region pl = Some r" "gateway pl = Some r"
    "subregion pl = Some (bnet_subregion (detail_bnet detail))"
    "toon_id pl = Some (bnet_uid (detail_bnet detail))"
    using Player_init_fields(5-8) [OF pl] r by simp_all
  with r ob show "\<exists>r. G (bnet_gateway (detail_bnet detail)) = Some r
         \<and> region ob = Some r \<and> gateway ob = Some r
         \<and> subregion ob = Some (bnet_subregion (detail_bnet detail))
         \<and> toon_id ob = Some (bnet_uid (detail_bnet detail))"
    by simp
qed

text \<open>
  The handle of the sample slot names the region \<open>us\<close>, the subregion 2 and the account 555;
  the detail record names the gateway of \<open>eu\<close>, the subregion 1 and the account 777.
\<close>

lemma py_str_samples: "py_str 777 = ''777''" "py_str 1 = ''1''" "py_str 0 = ''0''"
  by (simp_all add: py_str_def py_digits.simps)

theorem identity_from_detail_record_witness:
  "region (projr (Entity_init sample_gateways (new_object Participant) 1
                    (sample_slot (Some ''1-S2-2-555'')))) = Some ''us''
   \<and> toon_id (projr (Entity_init sample_gateways (new_object Participant) 1
                    (sample_slot (Some ''1-S2-2-555'')))) = Some 555
   \<and> region (projr (sample_participant ''Alice'' 1 ''Zerg'' 777)) = Some ''eu''
   \<and> subregion (projr (sample_participant ''Alice'' 1 ''Zerg'' 777)) = Some 1
   \<and> toon_id (projr (sample_participant ''Alice'' 1 ''Zerg'' 777)) = Some 777
   \<and> url (projr (sample_participant ''Alice'' 1 ''Zerg'' 777))
       = Inr ''http://eu.battle.net/sc2/en/profile/777/1/Alice/''
   \<and> region (projr (sample_computer 2 ''Terraner'')) = Some ''eu''
   \<and> toon_id (projr (sample_computer 2 ''Terraner'')) = Some 0"
  using
    identity_from_detail_record [THEN conjunct1, rule_format,
      OF sample_participant_Inr [of "''Alice''" 1 "''Zerg''" 777, unfolded sample_participant_def]]
    identity_from_detail_record [THEN conjunct2, rule_format,
      OF sample_computer_Inr [of 2 "''Terraner''", unfolded sample_computer_def]]
  by (simp add: sample_participant_def sample_computer_def sample_detail_def sample_init_def
      sample_gateways_eu Entity_init_sample py_str_samples)

lemma placeholder_parts: "py_split ''0-S2-0-0'' CHR ''-'' = [''0'', ''S2'', ''0'', ''0'']"
  by simp

lemma py_int_zero: "py_int ''0'' = Inr 0"
  by (simp add: py_int_defs)

lemma Entity_init_placeholder:
  assumes "handle_or_placeholder (slot_toon_handle slot) = ''0-S2-0-0''"
    and "G 0 = Some r"
  shows "\<exists>p. Entity_init G self s slot = Inr p \<and> region p = Some r \<and> gateway p = Some r
             \<and> subregion p = Some 0 \<and> toon_id p = Some 0"
  using assms
  by (simp add: Entity_init_def placeholder_parts py_index_def py_int_zero py_getitem_def)

text \<open>
  C6. A handle that is \<^verbatim>\<open>None\<close> or empty is no error of its own: \<^verbatim>\<open>Entity.__init__\<close> parses
  the placeholder \<^verbatim>\<open>"0-S2-0-0"\<close> in its place. With a gateway table that knows the id 0 the
  constructor returns an object whose region is the entry of the id 0 and whose subregion
  and account id are 0, the same as for a slot whose handle is the placeholder itself.
\<close>

theorem empty_handle_is_placeholder:
  assumes "slot_toon_handle slot = None \<or> slot_toon_handle slot = Some []"
    and "G 0 = Some r"
  shows "\<exists>p q. Entity_init G self s slot = Inr p
             \<and> Entity_init G self s (slot\<lparr>slot_toon_handle := Some ''0-S2-0-0''\<rparr>) = Inr q
             \<and> region p = Some r \<and> subregion p = Some 0 \<and> toon_id p = Some 0
             \<and> region q = region p \<and> gateway q = gateway p
             \<and> subregion q = subregion p \<and> toon_id q = toon_id p"
proof -
  from assms(1) have "handle_or_placeholder (slot_toon_handle slot) = ''0-S2-0-0''"
    by (auto simp: handle_or_placeholder_def)
  then obtain p where p: "Entity_init G self s slot = Inr p" "region p = Some r"
    "gateway p = Some r" "subregion p = Some 0" "toon_id p = Some 0"
    using Entity_init_placeholder [where G = G and r = r, OF _ assms(2)] by blast
  have "handle_or_placeholder (slot_toon_handle (slot\<lparr>slot_toon_handle := Some ''0-S2-0-0''\<rparr>))
        = ''0-S2-0-0''"
    by (simp add: handle_or_placeholder_def)
  then obtain q where q: "Entity_init G self s (slot\<lparr>slot_toon_handle := Some ''0-S2-0-0''\<rparr>) = Inr q"
    "region q = Some r" "gateway q = Some r" "subregion q = Some 0" "toon_id q = Some 0"
    using Entity_init_placeholder [where G = G and r = r, OF _ assms(2)] by blast
  from p q show ?thesis by simp
qed

text \<open>Without an entry for the id 0 the lookup of the placeholder's gateway raises.\<close>

lemma Entity_init_placeholder_unknown_gateway:
  assumes "handle_or_placeholder (slot_toon_handle slot) = ''0-S2-0-0''" and "G 0 = None"
  shows "Entity_init G self s slot = Inl KeyError"
  using assms
  by (simp add: Entity_init_def placeholder_parts py_index_def py_int_zero py_getitem_def)

theorem empty_handle_is_placeholder_witness:
  "sample_gateways 0 = Some []
   \<and> (\<exists>p q. Entity_init sample_gateways (new_object Entity) 4 (sample_slot None) = Inr p
          \<and> Entity_init sample_gateways (new_object Entity) 4 (sample_slot (Some ''0-S2-0-0'')) = Inr q
          \<and> region p = Some [] \<and> subregion p = Some 0 \<and> toon_id p = Some 0
          \<and> region q = region p \<and> gateway q = gateway p
          \<and> subregion q = subregion p \<and> toon_id q = toon_id p)
   \<and> (\<exists>p q. Entity_init sample_gateways (new_object Entity) 4 (sample_slot (Some [])) = Inr p
          \<and> Entity_init sample_gateways (new_object Entity) 4 (sample_slot (Some ''0-S2-0-0'')) = Inr q
          \<and> region p = Some [] \<and> subregion p = Some 0 \<and> toon_id p = Some 0
          \<and> region q = region p \<and> gateway q = gateway p
          \<and> subregion q = subregion p \<and> toon_id q = toon_id p)"
proof -
  have g: "sample_gateways 0 = Some []" by (simp add: sample_gateways_def)
  have a: "slot_toon_handle (sample_slot None) = None \<or> slot_toon_handle (sample_slot None) = Some []"
    by (simp add: sample_slot_def)
  have b: "slot_toon_handle (sample_slot (Some [])) = None
           \<or> slot_toon_handle (sample_slot (Some [])) = Some []"
    by (simp add: sample_slot_def)
  have u: "(sample_slot h)\<lparr>slot_toon_handle := Some ''0-S2-0-0''\<rparr> = sample_slot (Some ''0-S2-0-0'')" for h
    by (simp add: sample_slot_def)
  show ?thesis
    using
      empty_handle_is_placeholder [where G = sample_gateways and r = "[]"
        and slot = "sample_slot None" and self = "new_object Entity" and s = 4, OF a g]
      empty_handle_is_placeholder [where G = sample_gateways and r = "[]"
        and slot = "sample_slot (Some [])" and self = "new_object Entity" and s = 4, OF b g]
      g
    by (simp only: u simp_thms)
qed

section \<open>Properties of the attribute decoding\<close>

lemma py_lstrip_decomp:
  "\<exists>pre. s = pre @ py_lstrip s chars \<and> set pre \<subseteq> set chars"
proof -
  have "s = takeWhile (\<lambda>c. c \<in> set chars) s @ py_lstrip s chars"
    by (simp add: py_lstrip_def)
  moreover have "set (takeWhile (\<lambda>c. c \<in> set chars) s) \<subseteq> set chars"
    by (auto dest: set_takeWhileD)
  ultimately show ?thesis by blast
qed

lemma py_rstrip_decomp:
  "\<exists>post. s = py_rstrip s chars @ post \<and> set post \<subseteq> set chars"
proof -
  have "rev s = takeWhile (\<lambda>c. c \<in> set chars) (rev s) @ dropWhile (\<lambda>c. c \<in> set chars) (rev s)"
    by simp
  then have "s = py_rstrip s chars @ rev (takeWhile (\<lambda>c. c \<in> set chars) (rev s))"
    unfolding py_rstrip_def by (metis rev_append rev_rev_ident)
  moreover have "set (rev (takeWhile (\<lambda>c. c \<in> set chars) (rev s))) \<subseteq> set chars"
    by (auto dest: set_takeWhileD)
  ultimately show ?thesis by blast
qed

lemma py_lstrip_hd: "py_lstrip s chars \<noteq> [] \<Longrightarrow> hd (py_lstrip s chars) \<notin> set chars"
  unfolding py_lstrip_def by (rule hd_dropWhile)

lemma py_rstrip_last: "py_rstrip s chars \<noteq> [] \<Longrightarrow> last (py_rstrip s chars) \<notin> set chars"
  unfolding py_rstrip_def
  by (metis (mono_tags, lifting) hd_dropWhile last_rev rev_is_Nil_conv)

lemma py_rstrip_hd:
  assumes "py_rstrip s chars \<noteq> []"
  shows "hd (py_rstrip s chars) = hd s"
proof -
  obtain post where "s = py_rstrip s chars @ post"
    using py_rstrip_decomp by blast
  then have "hd s = hd (py_rstrip s chars @ post)" by simp
  with assms show ?thesis by simp
qed

lemma py_strip_decomp:
  "\<exists>pre post. s = pre @ py_strip s chars @ post \<and> set pre \<subseteq> set chars \<and> set post \<subseteq> set chars"
proof -
  obtain pre where pre: "s = pre @ py_lstrip s chars" "set pre \<subseteq> set chars"
    using py_lstrip_decomp by blast
  obtain post where post: "py_lstrip s chars = py_strip s chars @ post" "set post \<subseteq> set chars"
    using py_rstrip_decomp [of "py_lstrip s chars" chars] by (auto simp: py_strip_def)
  from pre post have "s = pre @ py_strip s chars @ post" by simp
  with pre post show ?thesis by blast
qed

lemma py_strip_ends:
  assumes "py_strip s chars \<noteq> []"
  shows "hd (py_strip s chars) \<notin> set chars" and "last (py_strip s chars) \<notin> set chars"
proof -
  from assms have ne: "py_lstrip s chars \<noteq> []"
    by (auto simp: py_strip_def py_rstrip_def)
  have "hd (py_strip s chars) = hd (py_lstrip s chars)"
    using assms unfolding py_strip_def by (rule py_rstrip_hd)
  with ne show "hd (py_strip s chars) \<notin> set chars"
    by (simp add: py_lstrip_hd)
  show "last (py_strip s chars) \<notin> set chars"
    using assms unfolding py_strip_def by (rule py_rstrip_last)
qed

lemma py_strip_no_leading:
  assumes "s = [] \<or> hd s \<notin> set chars"
  shows "py_strip s chars = py_rstrip s chars"
proof -
  from assms have "py_lstrip s chars = s"
    by (cases s) (auto simp: py_lstrip_def)
  then show ?thesis by (simp add: py_strip_def)
qed

text \<open>
  C3 (as amended). For an attribute id of the table, the decoding strips the null and space
  padding from both ends of the raw value (what is removed in front and behind is padding
  only, and what is left neither begins nor ends with padding), reverses what is left and
  looks the reversed string up in the value table of the attribute: the value found is the
  value of the attribute, and a string that is not in the table is a \<^verbatim>\<open>KeyError\<close>. On a raw
  value that does not begin with padding this is the decoding that strips the trailing
  padding only.
\<close>

theorem Attribute_init_known_id:
  assumes "LOBBY_PROPERTIES i = Some (nm, lookup)"
  shows "Attribute_init LOBBY_PROPERTIES h i p raw =
           (case lookup (rev (py_strip raw attribute_padding)) of
              None \<Rightarrow> Inl KeyError
            | Some v \<Rightarrow> Inr \<lparr>attr_header = h, attr_id = i, attr_player = p,
                             attr_name = nm, attr_value = v\<rparr>)
       \<and> (\<exists>pre post. raw = pre @ py_strip raw attribute_padding @ post
              \<and> set pre \<subseteq> {CHR 0x00, CHR '' ''} \<and> set post \<subseteq> {CHR 0x00, CHR '' ''})
       \<and> (py_strip raw attribute_padding \<noteq> [] \<longrightarrow>
              hd (py_strip raw attribute_padding) \<notin> {CHR 0x00, CHR '' ''}
            \<and> last (py_strip raw attribute_padding) \<notin> {CHR 0x00, CHR '' ''})
       \<and> (raw = [] \<or> hd raw \<notin> {CHR 0x00, CHR '' ''} \<longrightarrow>
              decoded (Attribute_init LOBBY_PROPERTIES h i p raw)
              = spec_decode LOBBY_PROPERTIES i raw)"
proof -
  have pad: "set attribute_padding = {CHR 0x00, CHR '' ''}"
    by (simp add: attribute_padding_def)
  have init: "Attribute_init LOBBY_PROPERTIES h i p raw =
           (case lookup (rev (py_strip raw attribute_padding)) of
              None \<Rightarrow> Inl KeyError
            | Some v \<Rightarrow> Inr \<lparr>attr_header = h, attr_id = i, attr_player = p,
                             attr_name = nm, attr_value = v\<rparr>)"
    using assms by (simp add: Attribute_init_def py_getitem_def split: option.splits)
  have decomp: "\<exists>pre post. raw = pre @ py_strip raw attribute_padding @ post
              \<and> set pre \<subseteq> {CHR 0x00, CHR '' ''} \<and> set post \<subseteq> {CHR 0x00, CHR '' ''}"
    using py_strip_decomp [of raw attribute_padding] by (simp only: pad)
  have ends: "py_strip raw attribute_padding \<noteq> [] \<longrightarrow>
              hd (py_strip raw attribute_padding) \<notin> {CHR 0x00, CHR '' ''}
            \<and> last (py_strip raw attribute_padding) \<notin> {CHR 0x00, CHR '' ''}"
    using py_strip_ends [of raw attribute_padding] by (simp only: pad) blast
  have agree: "raw = [] \<or> hd raw \<notin> {CHR 0x00, CHR '' ''} \<longrightarrow>
              decoded (Attribute_init LOBBY_PROPERTIES h i p raw)
              = spec_decode LOBBY_PROPERTIES i raw"
  proof
    assume "raw = [] \<or> hd raw \<notin> {CHR 0x00, CHR '' ''}"
    then have "py_strip raw attribute_padding = py_rstrip raw attribute_padding"
      using py_strip_no_leading [of raw attribute_padding] by (simp only: pad)
    with assms show "decoded (Attribute_init LOBBY_PROPERTIES h i p raw)
              = spec_decode LOBBY_PROPERTIES i raw"
      by (simp add: init decoded_def spec_decode_def split: option.splits)
  qed
  from init decomp ends agree show ?thesis by blast
qed

lemma sample_lobby_Race:
  "sample_lobby (PyInt 3001) =
   Some (''Race'', map_of [(''Terr'', ''Terran''), (''Zerg'', ''Zerg''),
                           (''Prot'', ''Protoss''), (''RAND'', ''Random'')])"
  by (simp add: sample_lobby_def)

lemma strip_samples:
  "py_strip [CHR ''r'', CHR ''r'', CHR ''e'', CHR ''T'', CHR 0x00, CHR '' ''] attribute_padding = ''rreT''"
  "py_strip '' rreT'' attribute_padding = ''rreT''"
  "py_rstrip '' rreT'' attribute_padding = '' rreT''"
  by (simp_all add: py_strip_def py_lstrip_def py_rstrip_def attribute_padding_def)

theorem Attribute_init_known_id_witness:
  "Attribute_init sample_lobby 0 (PyInt 3001) 1 [CHR ''r'', CHR ''r'', CHR ''e'', CHR ''T'', CHR 0x00, CHR '' '']
     = Inr \<lparr>attr_header = 0, attr_id = PyInt 3001, attr_player = 1, attr_name = ''Race'',
            attr_value = ''Terran''\<rparr>
   \<and> spec_decode sample_lobby (PyInt 3001) [CHR ''r'', CHR ''r'', CHR ''e'', CHR ''T'', CHR 0x00, CHR '' '']
     = Some (''Race'', ''Terran'')"
proof -
  note known = Attribute_init_known_id [where LOBBY_PROPERTIES = sample_lobby and i = "PyInt 3001"
      and h = 0 and p = 1 and raw = "[CHR ''r'', CHR ''r'', CHR ''e'', CHR ''T'', CHR 0x00, CHR '' '']",
      OF sample_lobby_Race]
  from known [THEN conjunct1] have init: "Attribute_init sample_lobby 0 (PyInt 3001) 1
      [CHR ''r'', CHR ''r'', CHR ''e'', CHR ''T'', CHR 0x00, CHR '' '']
     = Inr \<lparr>attr_header = 0, attr_id = PyInt 3001, attr_player = 1, attr_name = ''Race'',
            attr_value = ''Terran''\<rparr>"
    by (simp add: strip_samples)
  from known [THEN conjunct2, THEN conjunct2, THEN conjunct2]
  have "decoded (Attribute_init sample_lobby 0 (PyInt 3001) 1
      [CHR ''r'', CHR ''r'', CHR ''e'', CHR ''T'', CHR 0x00, CHR '' ''])
     = spec_decode sample_lobby (PyInt 3001)
         [CHR ''r'', CHR ''r'', CHR ''e'', CHR ''T'', CHR 0x00, CHR '' '']"
    by simp
  with init show ?thesis by (simp add: decoded_def)
qed

text \<open>
  A raw value with a space in front: the constructor strips it and finds \<open>Terr\<close>; stripping
  the trailing padding only leaves the key \<open>Terr\<close> followed by a space, which is no key.
\<close>

theorem Attribute_init_leading_padding_counterexample:
  "decoded (Attribute_init sample_lobby 0 (PyInt 3001) 1 '' rreT'') = Some (''Race'', ''Terran'')
   \<and> spec_decode sample_lobby (PyInt 3001) '' rreT'' = None
   \<and> rev (py_strip '' rreT'' attribute_padding) \<noteq> rev (py_rstrip '' rreT'' attribute_padding)"
  by (simp add: Attribute_init_def spec_decode_def decoded_def sample_lobby_Race strip_samples
      py_getitem_def)

text \<open>
  C4. The id 9999 is an \<^verbatim>\<open>int\<close> that the sample table does not hold. Building the message of
  the \<^verbatim>\<open>ValueError\<close> adds the id to a \<^verbatim>\<open>str\<close>, which raises \<^verbatim>\<open>TypeError\<close>: the \<^verbatim>\<open>ValueError\<close>
  that names the id is never raised for an id of type \<^verbatim>\<open>int\<close>.
\<close>

theorem Attribute_init_unknown_int_id:
  "sample_lobby (PyInt 9999) = None
   \<and> Attribute_init sample_lobby 0 (PyInt 9999) 1 ''rreT'' = Inl TypeError"
  by (simp add: Attribute_init_def sample_lobby_def)

text \<open>
  An id that is not in the table never gives an attribute; an id of type \<^verbatim>\<open>str\<close> gives the
  \<^verbatim>\<open>ValueError\<close> whose message ends with the id, an id of type \<^verbatim>\<open>int\<close> the \<^verbatim>\<open>TypeError\<close>.
\<close>

lemma Attribute_init_unknown_id:
  assumes "LOBBY_PROPERTIES i = None"
  shows "Attribute_init LOBBY_PROPERTIES h i p raw =
           (case i of PyStr s \<Rightarrow> Inl (ValueError (''Unknown attribute id: '' @ s))
                    | PyInt n \<Rightarrow> Inl TypeError)"
  using assms by (cases i) (simp_all add: Attribute_init_def)

section \<open>Properties of the team\<close>


























text \<open>
  The model of SHA-256 on the empty message, against the digest that \<^verbatim>\<open>hashlib\<close> and the
  standard give for it.
\<close>

lemma sha256_empty_message:
  "hexdigest (sha256 []) = ''e3b0c44298fc1c149afbf4c8996fb92427ae41e4649b934ca495991b7852b855''"
  by code_simp

end
